theory Spec2Isabelle
  imports Main "HOL-Library.Sublist"
begin

section \<open>JavaScript string and array primitives used by extension.ts\<close>

text \<open>
  Strings are character lists. The three library calls the path utilities rely on are
  modelled after ECMAScript: \<open>indexOf\<close> (first position of a substring, or \<open>-1\<close>),
  \<open>replace\<close> with a string pattern (first occurrence only, the replacement text read
  through GetSubstitution) and \<open>split\<close>/\<open>join\<close>.
\<close>

fun startsWith :: "'a list \<Rightarrow> 'a list \<Rightarrow> bool" where
  "startsWith s [] = True"
| "startsWith [] (p # ps) = False"
| "startsWith (c # cs) (p # ps) = (c = p \<and> startsWith cs ps)"

text \<open>The first position at which \<open>pat\<close> occurs in the string, if any.\<close>

fun findFirst :: "'a list \<Rightarrow> 'a list \<Rightarrow> nat option" where
  "findFirst pat [] = (if pat = [] then Some 0 else None)"
| "findFirst pat (c # cs) =
     (if startsWith (c # cs) pat then Some 0 else map_option Suc (findFirst pat cs))"

definition indexOf :: "'a list \<Rightarrow> 'a list \<Rightarrow> int" where
  "indexOf s pat = (case findFirst pat s of None \<Rightarrow> - 1 | Some i \<Rightarrow> int i)"

text \<open>
  GetSubstitution for a string pattern (no capture groups): in the replacement text
  \<open>$$\<close> stands for a dollar sign, \<open>$&\<close> for the matched text, \<open>$`\<close> for the text
  before the match and \<open>$'\<close> for the text after it; every other character, a dollar
  sign followed by anything else included, stands for itself.
\<close>

fun getSubstitution :: "string \<Rightarrow> string \<Rightarrow> string \<Rightarrow> string \<Rightarrow> string" where
  "getSubstitution matched before after [] = []"
| "getSubstitution matched before after [c] = [c]"
| "getSubstitution matched before after (c # d # r) =
     (if c = CHR ''$'' \<and> d = CHR ''$'' then CHR ''$'' # getSubstitution matched before after r
      else if c = CHR ''$'' \<and> d = CHR ''&'' then matched @ getSubstitution matched before after r
      else if c = CHR ''$'' \<and> d = CHR 0x60 then before @ getSubstitution matched before after r
      else if c = CHR ''$'' \<and> d = CHR 0x27 then after @ getSubstitution matched before after r
      else c # getSubstitution matched before after (d # r))"

definition replace :: "string \<Rightarrow> string \<Rightarrow> string \<Rightarrow> string" where
  "replace s pat rep =
     (case findFirst pat s of
        None \<Rightarrow> s
      | Some i \<Rightarrow>
          (let before = take i s; after = drop (i + length pat) s
           in before @ getSubstitution pat before after rep @ after))"

text \<open>\<open>split\<close> on a one-character separator and \<open>join\<close> with a separator string.\<close>

fun split :: "string \<Rightarrow> char \<Rightarrow> string list" where
  "split [] sep = [[]]"
| "split (c # cs) sep =
     (if c = sep then [] # split cs sep
      else (case split cs sep of [] \<Rightarrow> [[c]] | w # ws \<Rightarrow> (c # w) # ws))"

fun join :: "string list \<Rightarrow> string \<Rightarrow> string" where
  "join [] sep = []"
| "join [w] sep = w"
| "join (w # v # ws) sep = w @ sep @ join (v # ws) sep"

text \<open>
  \<open>String.prototype.toLowerCase\<close> follows Unicode's case mapping, a table that is not
  part of the program: the functions that call it take it as the parameter
  \<open>toLowerCase\<close>, and what is proved of them holds for every lowering. On a string of
  ASCII characters it lowers the letters A to Z and keeps every other character;
  \<open>lowerASCII\<close> is that restriction, for evaluating the functions on ASCII paths.
\<close>

definition lowerASCIIChar :: "char \<Rightarrow> char" where
  "lowerASCIIChar c =
     (case map_of (zip ''ABCDEFGHIJKLMNOPQRSTUVWXYZ'' ''abcdefghijklmnopqrstuvwxyz'') c of
        None \<Rightarrow> c
      | Some l \<Rightarrow> l)"

definition lowerASCII :: "string \<Rightarrow> string" where
  "lowerASCII s = map lowerASCIIChar s"

section \<open>Path portability (extension.ts, lines 479-523)\<close>

definition homePathVariable :: string where
  "homePathVariable = ''$home''"

definition backslash :: char where
  "backslash = CHR 0x5C"

definition pathIsUNC :: "string \<Rightarrow> bool" where
  "pathIsUNC path = (indexOf path [backslash, backslash] = 0)"

text \<open>\<open>homeDir\<close> is \<open>os.homedir()\<close>, a value of the environment: a parameter here.\<close>

definition compactHomePath :: "string \<Rightarrow> string \<Rightarrow> string" where
  "compactHomePath homeDir path =
     (if indexOf path homeDir = 0 then replace path homeDir homePathVariable else path)"

definition expandHomePath :: "string \<Rightarrow> string \<Rightarrow> string" where
  "expandHomePath homeDir path =
     (if indexOf path homePathVariable = 0 then replace path homePathVariable homeDir else path)"

definition normalizePath :: "string \<Rightarrow> string" where
  "normalizePath path =
     (if \<not> pathIsUNC path then join (split path backslash) [backslash, backslash] else path)"

text \<open>
  Whether a replacement text holds a replacement pattern: a dollar sign followed by
  \<open>$\<close>, \<open>&\<close>, a backquote or a quote. Without one, GetSubstitution returns the
  text as it is.
\<close>

fun hasDollarPattern :: "string \<Rightarrow> bool" where
  "hasDollarPattern [] = False"
| "hasDollarPattern [c] = False"
| "hasDollarPattern (c # d # r) =
     ((c = CHR ''$'' \<and> (d = CHR ''$'' \<or> d = CHR ''&'' \<or> d = CHR 0x60 \<or> d = CHR 0x27))
      \<or> hasDollarPattern (d # r))"

section \<open>The aggregation chain (extension.ts, lines 248-337 and 415-445)\<close>

text \<open>
  An entry is the object handed to the quick pick: \<open>label\<close>, \<open>description\<close> (the
  location) and the optional \<open>detail\<close>. A locator yields directory items.
\<close>

record entry =
  label :: string
  description :: string
  detail :: "string option"

record dirItem =
  name :: string
  fullPath :: string

datatype ProjectsSource = Projects | VSCode | Git | Svn

text \<open>
  The state a promise ends in: fulfilled with a value, rejected, or never settled.
  A call of \<open>locateProjects\<close> either throws or returns a promise; what it does is
  the locator's business (its code is not part of extension.ts), so each locator's
  result is a parameter of the chain.
\<close>

datatype 'a promise = Fulfilled 'a | Rejected | Pending

datatype locateResult = Throws | Returns "dirItem list promise"

text \<open>
  \<open>p.then(f)\<close> with a fulfilment callback only: \<open>f\<close> runs on the value of a
  fulfilled \<open>p\<close> and the new promise follows what \<open>f\<close> returns; a rejection passes
  through, and nothing follows a promise that never settles.
\<close>

definition andThen :: "'a promise \<Rightarrow> ('a \<Rightarrow> 'b promise) \<Rightarrow> 'b promise" where
  "andThen p f = (case p of Fulfilled v \<Rightarrow> f v | Rejected \<Rightarrow> Rejected | Pending \<Rightarrow> Pending)"

text \<open>\<open>Array.prototype.indexOf\<close>: the first position of an element, or \<open>-1\<close>.\<close>

fun findIndex :: "'a list \<Rightarrow> 'a \<Rightarrow> nat option" where
  "findIndex [] x = None"
| "findIndex (y # ys) x = (if y = x then Some 0 else map_option Suc (findIndex ys x))"

definition arrayIndexOf :: "'a list \<Rightarrow> 'a \<Rightarrow> int" where
  "arrayIndexOf xs x = (case findIndex xs x of None \<Rightarrow> - 1 | Some i \<Rightarrow> int i)"

definition MERGE_PROJECTS :: bool where
  "MERGE_PROJECTS = True"

definition getProjects :: "entry list \<Rightarrow> ProjectsSource list \<Rightarrow> entry list promise" where
  "getProjects itemsSorted sources =
     (if arrayIndexOf sources Projects = - 1 then Fulfilled [] else Fulfilled itemsSorted)"

definition vscodeItem :: "dirItem \<Rightarrow> entry" where
  "vscodeItem item =
     \<lparr>label = ''$(file-code) '' @ name item, description = fullPath item, detail = None\<rparr>"

definition gitItem :: "dirItem \<Rightarrow> entry" where
  "gitItem item =
     \<lparr>label = ''$(git-branch) '' @ name item, description = fullPath item, detail = None\<rparr>"

definition svnItem :: "dirItem \<Rightarrow> entry" where
  "svnItem item =
     \<lparr>label = ''$(zap) '' @ name item, description = fullPath item, detail = None\<rparr>"

text \<open>
  \<open>new Promise((resolve, reject) => { locator.locateProjects(...).then(dirList => ...) })\<close>:
  \<open>resolve\<close> is called in the fulfilment callback and nowhere else, and \<open>reject\<close> is
  never called. So the new promise is fulfilled when the locator's promise is, stays
  pending when the locator's promise is rejected or never settles, and is rejected when
  the call of \<open>locateProjects\<close> throws inside the executor.
\<close>

definition locateThen ::
  "(dirItem \<Rightarrow> entry) \<Rightarrow> locateResult \<Rightarrow> entry list \<Rightarrow> bool \<Rightarrow> entry list promise" where
  "locateThen mk located itemsSorted merge =
     (case located of
        Throws \<Rightarrow> Rejected
      | Returns p \<Rightarrow>
          (case p of
             Fulfilled dirList \<Rightarrow>
               (let newItems = map mk dirList
                in if merge then Fulfilled (newItems @ itemsSorted) else Fulfilled newItems)
           | Rejected \<Rightarrow> Pending
           | Pending \<Rightarrow> Pending))"

definition getVSCodeProjects :: "locateResult \<Rightarrow> entry list \<Rightarrow> bool \<Rightarrow> entry list promise" where
  "getVSCodeProjects located itemsSorted merge = locateThen vscodeItem located itemsSorted merge"

definition getGitProjects :: "locateResult \<Rightarrow> entry list \<Rightarrow> bool \<Rightarrow> entry list promise" where
  "getGitProjects located itemsSorted merge = locateThen gitItem located itemsSorted merge"

definition getSvnProjects :: "locateResult \<Rightarrow> entry list \<Rightarrow> bool \<Rightarrow> entry list promise" where
  "getSvnProjects located itemsSorted merge = locateThen svnItem located itemsSorted merge"

text \<open>The three callbacks chained after \<open>getProjects\<close> in \<open>listProjects\<close>.\<close>

definition vscodeStep :: "locateResult \<Rightarrow> ProjectsSource list \<Rightarrow> entry list \<Rightarrow> entry list promise" where
  "vscodeStep located sources folders =
     (if arrayIndexOf sources VSCode = - 1 then Fulfilled folders
      else getVSCodeProjects located folders MERGE_PROJECTS)"

definition gitStep :: "locateResult \<Rightarrow> ProjectsSource list \<Rightarrow> entry list \<Rightarrow> entry list promise" where
  "gitStep located sources folders =
     (if arrayIndexOf sources Git = - 1 then Fulfilled folders
      else getGitProjects located folders MERGE_PROJECTS)"

definition svnStep :: "locateResult \<Rightarrow> ProjectsSource list \<Rightarrow> entry list \<Rightarrow> entry list promise" where
  "svnStep located sources folders =
     (if arrayIndexOf sources Svn = - 1 then Fulfilled folders
      else getSvnProjects located folders MERGE_PROJECTS)"

text \<open>
  The promise whose value the last callback of \<open>listProjects\<close> receives as
  \<open>folders\<close>. A locator is called inside the callback of the step before it, so the
  calls follow one another and the result depends on their outcomes only.
\<close>

definition listProjectsFolders ::
  "locateResult \<Rightarrow> locateResult \<Rightarrow> locateResult \<Rightarrow> entry list \<Rightarrow> ProjectsSource list
     \<Rightarrow> entry list promise" where
  "listProjectsFolders vsc git svn items sources =
     andThen (andThen (andThen (getProjects items sources)
       (vscodeStep vsc sources)) (gitStep git sources)) (svnStep svn sources)"

fun isFulfilled :: "'a promise \<Rightarrow> bool" where
  "isFulfilled (Fulfilled v) = True"
| "isFulfilled Rejected = False"
| "isFulfilled Pending = False"

fun resolves :: "locateResult \<Rightarrow> bool" where
  "resolves (Returns (Fulfilled dirList)) = True"
| "resolves (Returns Rejected) = False"
| "resolves (Returns Pending) = False"
| "resolves Throws = False"

text \<open>
  The same chain with a clock. A callback of \<open>then\<close> runs when the promise before it
  is fulfilled. A locator that returns a promise settles it \<open>latency\<close> after the call,
  if it settles it at all; a call that throws does so at once, and a step whose origin is
  not enabled returns at once. The first component is the time of the chain's last event,
  the second the state of its promise.
\<close>

definition settledAt :: "nat \<Rightarrow> locateResult \<Rightarrow> nat \<Rightarrow> nat" where
  "settledAt latency located now =
     (case located of
        Throws \<Rightarrow> now
      | Returns p \<Rightarrow>
          (case p of
             Fulfilled dirList \<Rightarrow> now + latency
           | Rejected \<Rightarrow> now + latency
           | Pending \<Rightarrow> now))"

definition andThenAt ::
  "nat \<times> 'a promise \<Rightarrow> (nat \<Rightarrow> 'a \<Rightarrow> nat \<times> 'b promise) \<Rightarrow> nat \<times> 'b promise" where
  "andThenAt p f =
     (case snd p of
        Fulfilled v \<Rightarrow> f (fst p) v
      | Rejected \<Rightarrow> (fst p, Rejected)
      | Pending \<Rightarrow> (fst p, Pending))"

definition vscodeStepAt ::
  "nat \<Rightarrow> locateResult \<Rightarrow> ProjectsSource list \<Rightarrow> nat \<Rightarrow> entry list \<Rightarrow> nat \<times> entry list promise" where
  "vscodeStepAt latency located sources now folders =
     (if arrayIndexOf sources VSCode = - 1 then (now, Fulfilled folders)
      else (settledAt latency located now, getVSCodeProjects located folders MERGE_PROJECTS))"

definition gitStepAt ::
  "nat \<Rightarrow> locateResult \<Rightarrow> ProjectsSource list \<Rightarrow> nat \<Rightarrow> entry list \<Rightarrow> nat \<times> entry list promise" where
  "gitStepAt latency located sources now folders =
     (if arrayIndexOf sources Git = - 1 then (now, Fulfilled folders)
      else (settledAt latency located now, getGitProjects located folders MERGE_PROJECTS))"

definition svnStepAt ::
  "nat \<Rightarrow> locateResult \<Rightarrow> ProjectsSource list \<Rightarrow> nat \<Rightarrow> entry list \<Rightarrow> nat \<times> entry list promise" where
  "svnStepAt latency located sources now folders =
     (if arrayIndexOf sources Svn = - 1 then (now, Fulfilled folders)
      else (settledAt latency located now, getSvnProjects located folders MERGE_PROJECTS))"

definition listProjectsFoldersAt ::
  "nat \<Rightarrow> nat \<Rightarrow> nat \<Rightarrow> locateResult \<Rightarrow> locateResult \<Rightarrow> locateResult \<Rightarrow> entry list
     \<Rightarrow> ProjectsSource list \<Rightarrow> nat \<times> entry list promise" where
  "listProjectsFoldersAt vscLatency gitLatency svnLatency vsc git svn items sources =
     andThenAt (andThenAt (andThenAt (0, getProjects items sources)
       (vscodeStepAt vscLatency vsc sources)) (gitStepAt gitLatency git sources))
       (svnStepAt svnLatency svn sources)"

section \<open>The filter and annotate steps (extension.ts, lines 239-242 and 457-512)\<close>

text \<open>
  These steps assign to fields of the entry objects they are given, so the objects live
  in a store and an array is a list of references into it.
\<close>

type_synonym ref = nat

type_synonym heap = "ref \<Rightarrow> entry"

text \<open>
  The test \<open>!x\<close> on a value that is a string or undefined: undefined and the empty
  string are falsy.
\<close>

fun truthy :: "string option \<Rightarrow> bool" where
  "truthy None = False"
| "truthy (Some s) = (s \<noteq> [])"

definition invalidPathMarker :: string where
  "invalidPathMarker = ''$(circle-slash) Path does not exist''"

text \<open>The callback of \<open>items.map\<close> in \<open>expandHomePaths\<close>, on one object.\<close>

definition expandItem :: "string \<Rightarrow> entry \<Rightarrow> entry" where
  "expandItem homeDir item = item\<lparr>description := expandHomePath homeDir (description item)\<rparr>"

fun expandHeap :: "string \<Rightarrow> heap \<Rightarrow> ref list \<Rightarrow> heap" where
  "expandHeap homeDir h [] = h"
| "expandHeap homeDir h (item # items) =
     expandHeap homeDir (h(item := expandItem homeDir (h item))) items"

definition expandHomePaths :: "string \<Rightarrow> heap \<times> ref list \<Rightarrow> heap \<times> ref list" where
  "expandHomePaths homeDir st = (expandHeap homeDir (fst st) (snd st), snd st)"

text \<open>
  \<open>rootPath\<close> is \<open>vscode.workspace.rootPath\<close>: a string, or undefined. The test
  \<open>!rootPath\<close> holds for undefined and for the empty string.
\<close>

definition removeRootPath ::
  "(string \<Rightarrow> string) \<Rightarrow> string option \<Rightarrow> heap \<times> ref list \<Rightarrow> heap \<times> ref list" where
  "removeRootPath toLowerCase rootPath st =
     (case rootPath of
        None \<Rightarrow> st
      | Some root \<Rightarrow>
          if root = [] then st
          else (fst st,
                filter (\<lambda>value. toLowerCase (description (fst st value)) \<noteq> toLowerCase root)
                  (snd st)))"

text \<open>
  The body of the loop in \<open>indicateInvalidPaths\<close>, on one object; \<open>existsSync\<close> is
  \<open>fs.existsSync\<close>, the state of the file system.
\<close>

definition markInvalid :: "(string \<Rightarrow> bool) \<Rightarrow> entry \<Rightarrow> entry" where
  "markInvalid existsSync element =
     (if \<not> truthy (detail element) \<and> \<not> existsSync (description element)
      then element\<lparr>detail := Some invalidPathMarker\<rparr> else element)"

fun markHeap :: "(string \<Rightarrow> bool) \<Rightarrow> heap \<Rightarrow> ref list \<Rightarrow> heap" where
  "markHeap existsSync h [] = h"
| "markHeap existsSync h (element # items) =
     markHeap existsSync (h(element := markInvalid existsSync (h element))) items"

definition indicateInvalidPaths ::
  "(string \<Rightarrow> bool) \<Rightarrow> heap \<times> ref list \<Rightarrow> heap \<times> ref list" where
  "indicateInvalidPaths existsSync st = (markHeap existsSync (fst st) (snd st), snd st)"

text \<open>
  The first three statements of \<open>sortProjectList\<close>: expansion, removal of the current
  root, flagging of invalid paths. The ranking call that follows them belongs to the
  sorter.
\<close>

definition annotate ::
  "string \<Rightarrow> (string \<Rightarrow> string) \<Rightarrow> string option \<Rightarrow> (string \<Rightarrow> bool) \<Rightarrow> heap \<Rightarrow> ref list
     \<Rightarrow> heap \<times> ref list" where
  "annotate homeDir toLowerCase rootPath existsSync h items =
     indicateInvalidPaths existsSync
       (removeRootPath toLowerCase rootPath (expandHomePaths homeDir (h, items)))"

section \<open>Saving a project (extension.ts, lines 149-237)\<close>

text \<open>
  Modelled from the spec: the Catalog Entry of the Persisted Catalog (the class
  \<open>Project\<close> of storage.ts, which is not part of extension.ts): a label, a location
  and a free-form note.
\<close>

record project =
  projName :: string
  projRootPath :: string
  projNote :: string

text \<open>
  Modelled from the spec: the catalog's lookup by name (\<open>ProjectStorage.exists\<close>, of
  storage.ts).
\<close>

definition storageExists :: "project list \<Rightarrow> string \<Rightarrow> bool" where
  "storageExists projects nm = (nm \<in> set (map projName projects))"

text \<open>
  Modelled from the spec: the catalog's insert (\<open>ProjectStorage.push\<close>, of
  storage.ts), which adds one entry to the list.
\<close>

definition storagePush :: "project list \<Rightarrow> string \<Rightarrow> string \<Rightarrow> string \<Rightarrow> project list" where
  "storagePush projects nm root note =
     projects @ [\<lparr>projName = nm, projRootPath = root, projNote = note\<rparr>]"

text \<open>
  Modelled from the spec: the catalog's update (\<open>ProjectStorage.updateRootPath\<close>, of
  storage.ts), which replaces the location of the existing label.
\<close>

definition storageUpdateRootPath :: "project list \<Rightarrow> string \<Rightarrow> string \<Rightarrow> project list" where
  "storageUpdateRootPath projects nm root =
     map (\<lambda>p. if projName p = nm then p\<lparr>projRootPath := root\<rparr> else p) projects"

text \<open>
  Modelled from the spec: the recency tracker's push (\<open>StringStack.push\<close>, of
  stack.ts): a label already present is removed and appended at the most recent end, and
  past the bound the least recently used label is dropped.
\<close>

definition stackPush :: "nat \<Rightarrow> string \<Rightarrow> string list \<Rightarrow> string list" where
  "stackPush bound item stack =
     (let pushed = remove1 item stack @ [item]
      in drop (length pushed - bound) pushed)"

text \<open>
  The state a save acts on: the catalog in memory and as last persisted by
  \<open>projectStorage.save()\<close>, the recency stack and its copy in the global state.
\<close>

record saveState =
  catalog :: "project list"
  catalogFile :: "project list"
  aStack :: "string list"
  recent :: "string list"

datatype messageItem = Update | Cancel

datatype saveOutcome = Threw | Dismissed | NameEmpty | Created | Updated | NotUpdated

text \<open>
  \<open>saveProject\<close>. \<open>workspaceRoot\<close> is \<open>vscode.workspace.rootPath\<close>,
  \<open>projectName\<close> is what the input box resolves with and \<open>choice\<close> what the
  "Project already exists!" message resolves with (undefined when dismissed). Without a
  workspace root the first statement on \<open>wpath\<close> throws, before anything is asked.
\<close>

definition saveProject ::
  "string \<Rightarrow> nat \<Rightarrow> string option \<Rightarrow> string option \<Rightarrow> messageItem option \<Rightarrow> saveState
     \<Rightarrow> saveOutcome \<times> saveState" where
  "saveProject homeDir bound workspaceRoot projectName choice st =
     (case workspaceRoot of
        None \<Rightarrow> (Threw, st)
      | Some wsRoot \<Rightarrow>
          (case projectName of
             None \<Rightarrow> (Dismissed, st)
           | Some nm \<Rightarrow>
               if nm = [] then (NameEmpty, st)
               else
                 (let root = compactHomePath homeDir wsRoot
                  in if \<not> storageExists (catalog st) nm then
                       (let st1 = st\<lparr>aStack := stackPush bound nm (aStack st)\<rparr>;
                            st2 = st1\<lparr>recent := aStack st1\<rparr>;
                            st3 = st2\<lparr>catalog := storagePush (catalog st2) nm root []\<rparr>;
                            st4 = st3\<lparr>catalogFile := catalog st3\<rparr>
                        in (Created, st4))
                     else
                       (case choice of
                          None \<Rightarrow> (NotUpdated, st)
                        | Some Update \<Rightarrow>
                            (let st1 = st\<lparr>aStack := stackPush bound nm (aStack st)\<rparr>;
                                 st2 = st1\<lparr>recent := aStack st1\<rparr>;
                                 st3 = st2\<lparr>catalog := storageUpdateRootPath (catalog st2) nm root\<rparr>;
                                 st4 = st3\<lparr>catalogFile := catalog st3\<rparr>
                             in (Updated, st4))
                        | Some Cancel \<Rightarrow> (NotUpdated, st)))))"

section \<open>Properties of the string primitives\<close>

lemma startsWith_prefix: "startsWith s pat = prefix pat s"
  by (induction s pat rule: startsWith.induct) auto

lemma findFirst_zero: "(findFirst pat s = Some 0) = prefix pat s"
  by (cases s) (simp_all add: startsWith_prefix)

lemma indexOf_zero: "(indexOf s pat = 0) = prefix pat s"
  by (simp add: indexOf_def findFirst_zero[symmetric] split: option.split)

lemma getSubstitution_plain:
  "\<not> hasDollarPattern rep \<Longrightarrow> getSubstitution m b a rep = rep"
  by (induction m b a rep rule: getSubstitution.induct) auto

lemma replace_at_front:
  "replace (pat @ rest) pat rep = getSubstitution pat [] rest rep @ rest"
proof -
  have "findFirst pat (pat @ rest) = Some 0"
    by (simp add: findFirst_zero)
  then show ?thesis
    by (simp add: replace_def)
qed

lemma split_not_Nil: "split p sep \<noteq> []"
  by (induction p) (auto split: list.split)

lemma join_Cons: "ws \<noteq> [] \<Longrightarrow> join (w # ws) d = w @ d @ join ws d"
  by (cases ws) simp_all

lemma join_Cons_Cons: "join ((c # w) # ws) d = c # join (w # ws) d"
  by (cases ws) simp_all

lemma join_split:
  "join (split p sep) d = concat (map (\<lambda>c. if c = sep then d else [c]) p)"
proof (induction p)
  case Nil
  show ?case by simp
next
  case (Cons c cs)
  show ?case
  proof (cases "c = sep")
    case True
    then show ?thesis
      using Cons.IH by (simp add: join_Cons split_not_Nil)
  next
    case False
    obtain w ws where sp: "split cs sep = w # ws"
      using split_not_Nil[of cs sep] by (cases "split cs sep") auto
    show ?thesis
      using False Cons.IH by (simp add: sp join_Cons_Cons)
  qed
qed

section \<open>Path portability: the claims\<close>

lemma compactHomePath_under_home:
  "compactHomePath homeDir (homeDir @ rest) = homePathVariable @ rest"
  by (simp add: compactHomePath_def indexOf_zero replace_at_front homePathVariable_def)

lemma expandHomePath_at_variable:
  "expandHomePath homeDir (homePathVariable @ rest) =
     getSubstitution homePathVariable [] rest homeDir @ rest"
  by (simp add: expandHomePath_def indexOf_zero replace_at_front)

lemma expand_compact_plain_home:
  assumes "\<not> hasDollarPattern homeDir" and "prefix homeDir p"
  shows "expandHomePath homeDir (compactHomePath homeDir p) = p"
proof -
  obtain rest where p: "p = homeDir @ rest"
    using assms(2) by (auto simp: prefix_def)
  show ?thesis
    by (simp add: p compactHomePath_under_home expandHomePath_at_variable
        getSubstitution_plain[OF assms(1)])
qed

lemma compact_outside_home:
  "\<not> prefix homeDir p \<Longrightarrow> compactHomePath homeDir p = p"
  by (simp add: compactHomePath_def indexOf_zero)

lemma compact_sibling_directory:
  "compactHomePath ''/home/user'' ''/home/user2/x'' = ''$home2/x''"
  by (simp add: compactHomePath_def indexOf_def replace_def homePathVariable_def)

text \<open>
  C3. Compacting a path under the home directory and expanding it again gives the path
  back, and a path not under the home directory is compacted to itself. The test both
  functions make is on the text: a path that does not begin with the home directory's
  text is compacted to itself (\<open>compact_outside_home\<close>), while a path in a sibling
  directory whose name begins with the home directory's is rewritten
  (\<open>compact_sibling_directory\<close>). The round trip holds for every home directory whose
  text has no replacement pattern (\<open>expand_compact_plain_home\<close>) and fails otherwise:
  \<open>expandHomePath\<close> hands the home directory to \<open>replace\<close> as the replacement text,
  which reads \<open>$$\<close> in it as one dollar sign. With the home directory \<open>/home/a$$b\<close>
  the path \<open>/home/a$$b/x\<close> is compacted to \<open>$home/x\<close> and expanded to
  \<open>/home/a$b/x\<close>, a different path.
\<close>

theorem expand_compact_dollar_home:
  "compactHomePath ''/home/a$$b'' ''/home/a$$b/x'' = ''$home/x'' \<and>
   expandHomePath ''/home/a$$b'' (compactHomePath ''/home/a$$b'' ''/home/a$$b/x'')
     = ''/home/a$b/x'' \<and>
   expandHomePath ''/home/a$$b'' (compactHomePath ''/home/a$$b'' ''/home/a$$b/x'')
     \<noteq> ''/home/a$$b/x''"
  by (simp add: compactHomePath_def expandHomePath_def indexOf_def replace_def
      homePathVariable_def)

text \<open>
  C9. \<open>normalizePath\<close> returns a path that begins with two backslashes (a UNC path)
  unchanged, and every other path with each backslash doubled: the path split on the
  single backslash and joined with two.
\<close>

theorem normalizePath_doubles:
  "(prefix [backslash, backslash] path \<longrightarrow> normalizePath path = path) \<and>
   (\<not> prefix [backslash, backslash] path \<longrightarrow>
      normalizePath path = join (split path backslash) [backslash, backslash] \<and>
      normalizePath path =
        concat (map (\<lambda>c. if c = backslash then [backslash, backslash] else [c]) path))"
  by (simp add: normalizePath_def pathIsUNC_def indexOf_zero join_split)

theorem normalizePath_doubles_witness:
  "normalizePath (''C:'' @ [backslash] @ ''a'' @ [backslash] @ ''b'')
     = ''C:'' @ [backslash, backslash] @ ''a'' @ [backslash, backslash] @ ''b'' \<and>
   normalizePath ([backslash, backslash] @ ''srv'' @ [backslash] @ ''x'')
     = [backslash, backslash] @ ''srv'' @ [backslash] @ ''x''"
  using normalizePath_doubles[of "''C:'' @ [backslash] @ ''a'' @ [backslash] @ ''b''"]
    normalizePath_doubles[of "[backslash, backslash] @ ''srv'' @ [backslash] @ ''x''"]
  by (simp add: backslash_def)

text \<open>
  C10. Home-directory substitution looks at the front of the path only. A path that
  does not begin with the home directory is compacted to itself, wherever else the home
  directory occurs in it, and a path that does not begin with \<open>$home\<close> is expanded to
  itself. When the front matches, the occurrence at the front is the one replaced and
  the rest of the path is kept as it is: \<open>$home\<close> stands for the home directory in the
  compacted path, and the substitution of the home directory stands for \<open>$home\<close> in
  the expanded one (the home directory itself when its text has no replacement pattern).
\<close>

theorem home_substitution_prefix_only:
  "(\<not> prefix homeDir path \<longrightarrow> compactHomePath homeDir path = path) \<and>
   (\<not> prefix homePathVariable path \<longrightarrow> expandHomePath homeDir path = path) \<and>
   compactHomePath homeDir (homeDir @ rest) = homePathVariable @ rest \<and>
   expandHomePath homeDir (homePathVariable @ rest)
     = getSubstitution homePathVariable [] rest homeDir @ rest \<and>
   (\<not> hasDollarPattern homeDir \<longrightarrow>
      expandHomePath homeDir (homePathVariable @ rest) = homeDir @ rest)"
  by (simp add: compact_outside_home compactHomePath_under_home expandHomePath_at_variable
      getSubstitution_plain)
    (simp add: expandHomePath_def indexOf_zero)

theorem home_substitution_prefix_only_witness:
  "compactHomePath ''/h'' ''/x/h/y'' = ''/x/h/y'' \<and>
   expandHomePath ''/h'' ''/x/$home'' = ''/x/$home'' \<and>
   compactHomePath ''/h'' ''/h/h/y'' = ''$home/h/y'' \<and>
   expandHomePath ''/h'' ''$home/$home'' = ''/h/$home''"
  using home_substitution_prefix_only[of "''/h''" "''/x/h/y''" "''/h/y''"]
    home_substitution_prefix_only[of "''/h''" "''/x/$home''" "''/$home''"]
  by (simp add: homePathVariable_def)

section \<open>The aggregation chain: the claims\<close>

lemma arrayIndexOf_absent: "(arrayIndexOf xs x = - 1) = (x \<notin> set xs)"
proof -
  have "(findIndex xs x = None) = (x \<notin> set xs)"
    by (induction xs) auto
  then show ?thesis
    by (auto simp: arrayIndexOf_def split: option.splits)
qed

lemma locateThen_merge:
  "locateThen mk (Returns (Fulfilled dirList)) itemsSorted True
     = Fulfilled (map mk dirList @ itemsSorted)"
  by (simp add: locateThen_def)

lemma listProjectsFolders_resolved:
  "listProjectsFolders (Returns (Fulfilled v)) (Returns (Fulfilled g)) (Returns (Fulfilled s))
     items sources
   = Fulfilled ((if Svn \<in> set sources then map svnItem s else [])
       @ (if Git \<in> set sources then map gitItem g else [])
       @ (if VSCode \<in> set sources then map vscodeItem v else [])
       @ (if Projects \<in> set sources then items else []))"
  by (simp add: listProjectsFolders_def andThen_def getProjects_def vscodeStep_def gitStep_def
      svnStep_def getVSCodeProjects_def getGitProjects_def getSvnProjects_def locateThen_merge
      MERGE_PROJECTS_def arrayIndexOf_absent)

lemma andThenAt_snd:
  "snd p = q \<Longrightarrow> (\<And>t v. snd (f t v) = g v) \<Longrightarrow> snd (andThenAt p f) = andThen q g"
  by (cases q) (auto simp: andThenAt_def andThen_def)

lemma listProjectsFoldersAt_value:
  "snd (listProjectsFoldersAt lv lg ls vsc git svn items sources)
     = listProjectsFolders vsc git svn items sources"
  unfolding listProjectsFoldersAt_def listProjectsFolders_def
  by (intro andThenAt_snd)
    (simp_all add: vscodeStepAt_def gitStepAt_def svnStepAt_def vscodeStep_def gitStep_def
      svnStep_def)

lemma step_merges:
  "vscodeStep (Returns (Fulfilled dirList)) sources folders
     = Fulfilled ((if VSCode \<in> set sources then map vscodeItem dirList else []) @ folders)"
  "gitStep (Returns (Fulfilled dirList)) sources folders
     = Fulfilled ((if Git \<in> set sources then map gitItem dirList else []) @ folders)"
  "svnStep (Returns (Fulfilled dirList)) sources folders
     = Fulfilled ((if Svn \<in> set sources then map svnItem dirList else []) @ folders)"
  by (simp_all add: vscodeStep_def gitStep_def svnStep_def getVSCodeProjects_def
      getGitProjects_def getSvnProjects_def locateThen_merge MERGE_PROJECTS_def
      arrayIndexOf_absent)

lemma listProjectsFolders_enabled_resolved:
  assumes "VSCode \<in> set sources \<longrightarrow> vsc = Returns (Fulfilled v)"
    and "Git \<in> set sources \<longrightarrow> git = Returns (Fulfilled g)"
    and "Svn \<in> set sources \<longrightarrow> svn = Returns (Fulfilled s)"
  shows "listProjectsFolders vsc git svn items sources
     = Fulfilled ((if Svn \<in> set sources then map svnItem s else [])
         @ (if Git \<in> set sources then map gitItem g else [])
         @ (if VSCode \<in> set sources then map vscodeItem v else [])
         @ (if Projects \<in> set sources then items else []))"
proof -
  have a: "vscodeStep vsc sources folders
      = Fulfilled ((if VSCode \<in> set sources then map vscodeItem v else []) @ folders)"
    for folders
    using assms(1) step_merges(1)[of v sources folders]
    by (auto simp: vscodeStep_def arrayIndexOf_absent)
  have b: "gitStep git sources folders
      = Fulfilled ((if Git \<in> set sources then map gitItem g else []) @ folders)"
    for folders
    using assms(2) step_merges(2)[of g sources folders]
    by (auto simp: gitStep_def arrayIndexOf_absent)
  have c: "svnStep svn sources folders
      = Fulfilled ((if Svn \<in> set sources then map svnItem s else []) @ folders)"
    for folders
    using assms(3) step_merges(3)[of s sources folders]
    by (auto simp: svnStep_def arrayIndexOf_absent)
  show ?thesis
    by (simp add: listProjectsFolders_def andThen_def getProjects_def a b c arrayIndexOf_absent)
qed

lemma listProjectsFoldersAt_resolved:
  "listProjectsFoldersAt vscLatency gitLatency svnLatency
       (Returns (Fulfilled v)) (Returns (Fulfilled g)) (Returns (Fulfilled s)) items sources
     = ((if VSCode \<in> set sources then vscLatency else 0)
          + (if Git \<in> set sources then gitLatency else 0)
          + (if Svn \<in> set sources then svnLatency else 0),
        Fulfilled ((if Svn \<in> set sources then map svnItem s else [])
          @ (if Git \<in> set sources then map gitItem g else [])
          @ (if VSCode \<in> set sources then map vscodeItem v else [])
          @ (if Projects \<in> set sources then items else [])))"
  by (simp add: listProjectsFoldersAt_def andThenAt_def getProjects_def vscodeStepAt_def
      gitStepAt_def svnStepAt_def settledAt_def getVSCodeProjects_def getGitProjects_def getSvnProjects_def
      locateThen_merge MERGE_PROJECTS_def arrayIndexOf_absent)

text \<open>
  C1. With the merge policy true, a discovery source's entries are put in front of the
  entries accumulated so far, which follow in their order: so does each of the three
  functions, so does each step of the chain for an enabled origin, and the chain as a
  whole yields, for every catalog, every set of origins and every result of the three
  sources, the entries of Svn, Git and the IDE workspace in front of the catalog's. The
  locators are called one after another, each in the callback of the step before, so the
  value does not depend on how long any of them takes: the chain with a clock yields the
  value of the chain without one for all latencies. With the catalog holding A at
  \<open>/x\<close> and one source returning B at \<open>/y\<close>, whichever source it is, the chain
  yields B (under the source's decorated label) and then A.
\<close>

theorem merge_puts_discovered_first:
  "getVSCodeProjects (Returns (Fulfilled dirList)) itemsSorted True
     = Fulfilled (map vscodeItem dirList @ itemsSorted) \<and>
   getGitProjects (Returns (Fulfilled dirList)) itemsSorted True
     = Fulfilled (map gitItem dirList @ itemsSorted) \<and>
   getSvnProjects (Returns (Fulfilled dirList)) itemsSorted True
     = Fulfilled (map svnItem dirList @ itemsSorted) \<and>
   vscodeStep (Returns (Fulfilled dirList)) sources folders
     = Fulfilled ((if VSCode \<in> set sources then map vscodeItem dirList else []) @ folders) \<and>
   gitStep (Returns (Fulfilled dirList)) sources folders
     = Fulfilled ((if Git \<in> set sources then map gitItem dirList else []) @ folders) \<and>
   svnStep (Returns (Fulfilled dirList)) sources folders
     = Fulfilled ((if Svn \<in> set sources then map svnItem dirList else []) @ folders) \<and>
   listProjectsFolders (Returns (Fulfilled v)) (Returns (Fulfilled g)) (Returns (Fulfilled s))
       items sources
     = Fulfilled ((if Svn \<in> set sources then map svnItem s else [])
         @ (if Git \<in> set sources then map gitItem g else [])
         @ (if VSCode \<in> set sources then map vscodeItem v else [])
         @ (if Projects \<in> set sources then items else [])) \<and>
   listProjectsFoldersAt vscLatency gitLatency svnLatency
       (Returns (Fulfilled v)) (Returns (Fulfilled g)) (Returns (Fulfilled s)) items sources
     = ((if VSCode \<in> set sources then vscLatency else 0)
          + (if Git \<in> set sources then gitLatency else 0)
          + (if Svn \<in> set sources then svnLatency else 0),
        Fulfilled ((if Svn \<in> set sources then map svnItem s else [])
          @ (if Git \<in> set sources then map gitItem g else [])
          @ (if VSCode \<in> set sources then map vscodeItem v else [])
          @ (if Projects \<in> set sources then items else []))) \<and>
   snd (listProjectsFoldersAt vscLatency gitLatency svnLatency vsc git svn items sources)
     = listProjectsFolders vsc git svn items sources \<and>
   snd (listProjectsFoldersAt vscLatency gitLatency svnLatency
       (Returns (Fulfilled [\<lparr>name = ''B'', fullPath = ''/y''\<rparr>]))
       (Returns (Fulfilled [])) (Returns (Fulfilled []))
       [\<lparr>label = ''A'', description = ''/x'', detail = None\<rparr>] [Projects, VSCode, Git, Svn])
     = Fulfilled [\<lparr>label = ''$(file-code) B'', description = ''/y'', detail = None\<rparr>,
                  \<lparr>label = ''A'', description = ''/x'', detail = None\<rparr>] \<and>
   snd (listProjectsFoldersAt vscLatency gitLatency svnLatency
       (Returns (Fulfilled [])) (Returns (Fulfilled [\<lparr>name = ''B'', fullPath = ''/y''\<rparr>]))
       (Returns (Fulfilled []))
       [\<lparr>label = ''A'', description = ''/x'', detail = None\<rparr>] [Projects, VSCode, Git, Svn])
     = Fulfilled [\<lparr>label = ''$(git-branch) B'', description = ''/y'', detail = None\<rparr>,
                  \<lparr>label = ''A'', description = ''/x'', detail = None\<rparr>] \<and>
   snd (listProjectsFoldersAt vscLatency gitLatency svnLatency
       (Returns (Fulfilled [])) (Returns (Fulfilled []))
       (Returns (Fulfilled [\<lparr>name = ''B'', fullPath = ''/y''\<rparr>]))
       [\<lparr>label = ''A'', description = ''/x'', detail = None\<rparr>] [Projects, VSCode, Git, Svn])
     = Fulfilled [\<lparr>label = ''$(zap) B'', description = ''/y'', detail = None\<rparr>,
                  \<lparr>label = ''A'', description = ''/x'', detail = None\<rparr>] \<and>
   listProjectsFolders (Returns (Fulfilled [\<lparr>name = ''B'', fullPath = ''/y''\<rparr>])) git svn
       [\<lparr>label = ''A'', description = ''/x'', detail = None\<rparr>] [Projects, VSCode]
     = Fulfilled [\<lparr>label = ''$(file-code) B'', description = ''/y'', detail = None\<rparr>,
                  \<lparr>label = ''A'', description = ''/x'', detail = None\<rparr>]"
proof -
  have ex: "listProjectsFolders (Returns (Fulfilled [\<lparr>name = ''B'', fullPath = ''/y''\<rparr>])) git svn
       [\<lparr>label = ''A'', description = ''/x'', detail = None\<rparr>] [Projects, VSCode]
     = Fulfilled [\<lparr>label = ''$(file-code) B'', description = ''/y'', detail = None\<rparr>,
                  \<lparr>label = ''A'', description = ''/x'', detail = None\<rparr>]"
    using listProjectsFolders_enabled_resolved[of "[Projects, VSCode]"
        "Returns (Fulfilled [\<lparr>name = ''B'', fullPath = ''/y''\<rparr>])"
        "[\<lparr>name = ''B'', fullPath = ''/y''\<rparr>]" git "[]" svn "[]"
        "[\<lparr>label = ''A'', description = ''/x'', detail = None\<rparr>]"]
    by (simp add: vscodeItem_def)
  show ?thesis
    by (simp add: getVSCodeProjects_def getGitProjects_def getSvnProjects_def locateThen_merge
        step_merges listProjectsFolders_resolved listProjectsFoldersAt_resolved
        listProjectsFoldersAt_value ex vscodeItem_def gitItem_def svnItem_def)
qed

text \<open>
  C2. The chain folds the sources in the order catalog, IDE workspace, Git, Svn: the
  running sequence starts as the catalog's entries, or empty when the catalog is not
  enabled; each enabled source puts its entries in front, so the result reads Svn, Git,
  IDE workspace, catalog; and the step of a source that is not enabled hands the running
  sequence on as it is, without calling the locator.
\<close>

theorem fold_order_fixed:
  "listProjectsFolders vsc git svn items sources
     = andThen (andThen (andThen (getProjects items sources)
         (vscodeStep vsc sources)) (gitStep git sources)) (svnStep svn sources) \<and>
   getProjects items sources = Fulfilled (if Projects \<in> set sources then items else []) \<and>
   (VSCode \<notin> set sources \<longrightarrow> vscodeStep vsc sources folders = Fulfilled folders) \<and>
   (Git \<notin> set sources \<longrightarrow> gitStep git sources folders = Fulfilled folders) \<and>
   (Svn \<notin> set sources \<longrightarrow> svnStep svn sources folders = Fulfilled folders) \<and>
   listProjectsFolders (Returns (Fulfilled v)) (Returns (Fulfilled g)) (Returns (Fulfilled s))
       items sources
     = Fulfilled ((if Svn \<in> set sources then map svnItem s else [])
         @ (if Git \<in> set sources then map gitItem g else [])
         @ (if VSCode \<in> set sources then map vscodeItem v else [])
         @ (if Projects \<in> set sources then items else []))"
  by (simp add: listProjectsFolders_resolved)
    (simp add: listProjectsFolders_def getProjects_def vscodeStep_def gitStep_def svnStep_def
      arrayIndexOf_absent)

theorem fold_order_fixed_witness:
  "vscodeStep Throws [Projects, Svn] [\<lparr>label = ''A'', description = ''/x'', detail = None\<rparr>]
     = Fulfilled [\<lparr>label = ''A'', description = ''/x'', detail = None\<rparr>] \<and>
   gitStep (Returns Rejected) [Projects, Svn] [] = Fulfilled [] \<and>
   svnStep (Returns Pending) [Git] [] = Fulfilled [] \<and>
   listProjectsFolders (Returns (Fulfilled [\<lparr>name = ''V'', fullPath = ''/v''\<rparr>]))
       (Returns (Fulfilled [\<lparr>name = ''G'', fullPath = ''/g''\<rparr>]))
       (Returns (Fulfilled [\<lparr>name = ''S'', fullPath = ''/s''\<rparr>]))
       [\<lparr>label = ''A'', description = ''/x'', detail = None\<rparr>] [Git, VSCode, Svn]
     = Fulfilled [\<lparr>label = ''$(zap) S'', description = ''/s'', detail = None\<rparr>,
                  \<lparr>label = ''$(git-branch) G'', description = ''/g'', detail = None\<rparr>,
                  \<lparr>label = ''$(file-code) V'', description = ''/v'', detail = None\<rparr>]"
  using fold_order_fixed[of Throws "Returns Rejected" "Returns Pending"
      "[]" "[Projects, Svn]" "[\<lparr>label = ''A'', description = ''/x'', detail = None\<rparr>]" "[]" "[]" "[]"]
    fold_order_fixed[of Throws "Returns Rejected" "Returns Pending" "[]" "[Projects, Svn]"
      "[]" "[]" "[]" "[]"]
    fold_order_fixed[of Throws "Returns Rejected" "Returns Pending" "[]" "[Git]"
      "[]" "[]" "[]" "[]"]
    fold_order_fixed[of Throws Throws Throws
      "[\<lparr>label = ''A'', description = ''/x'', detail = None\<rparr>]"
      "[Git, VSCode, Svn]" "[]" "[\<lparr>name = ''V'', fullPath = ''/v''\<rparr>]"
      "[\<lparr>name = ''G'', fullPath = ''/g''\<rparr>]" "[\<lparr>name = ''S'', fullPath = ''/s''\<rparr>]"]
  by (simp add: vscodeItem_def gitItem_def svnItem_def)

lemma andThen_vscodeStep:
  "isFulfilled (andThen p (vscodeStep vsc sources))
     = (isFulfilled p \<and> (VSCode \<in> set sources \<longrightarrow> resolves vsc))"
  by (cases p; cases vsc rule: resolves.cases)
    (simp_all add: andThen_def vscodeStep_def getVSCodeProjects_def locateThen_def
      arrayIndexOf_absent Let_def)

lemma andThen_gitStep:
  "isFulfilled (andThen p (gitStep git sources))
     = (isFulfilled p \<and> (Git \<in> set sources \<longrightarrow> resolves git))"
  by (cases p; cases git rule: resolves.cases)
    (simp_all add: andThen_def gitStep_def getGitProjects_def locateThen_def
      arrayIndexOf_absent Let_def)

lemma andThen_svnStep:
  "isFulfilled (andThen p (svnStep svn sources))
     = (isFulfilled p \<and> (Svn \<in> set sources \<longrightarrow> resolves svn))"
  by (cases p; cases svn rule: resolves.cases)
    (simp_all add: andThen_def svnStep_def getSvnProjects_def locateThen_def
      arrayIndexOf_absent Let_def)

text \<open>
  C7, as the claim states it, fails: with every origin enabled and the Git locator's
  promise rejected, the chain never settles, although the other two locators resolve.
\<close>

theorem rejected_locator_blocks_chain:
  "listProjectsFolders (Returns (Fulfilled [\<lparr>name = ''B'', fullPath = ''/y''\<rparr>]))
     (Returns Rejected) (Returns (Fulfilled []))
     [\<lparr>label = ''A'', description = ''/x'', detail = None\<rparr>] [Projects, VSCode, Git, Svn]
   = Pending"
  by (simp add: listProjectsFolders_def andThen_def getProjects_def vscodeStep_def gitStep_def
      svnStep_def getVSCodeProjects_def getGitProjects_def getSvnProjects_def locateThen_def
      MERGE_PROJECTS_def arrayIndexOf_def)

text \<open>
  C7, amended. The chain is fulfilled exactly when the call of every enabled source
  resolves, and its value is then the entries of the enabled sources in front of the
  catalog's, whatever a source that is not enabled would do; a source that resolves with
  no items hands the running sequence on as it is. A call that throws, is rejected or
  never settles is not contained: the chain is then never fulfilled, whatever the other
  sources return.
\<close>

theorem chain_fulfilled_iff_sources_resolve:
  "isFulfilled (listProjectsFolders vsc git svn items sources)
     = ((VSCode \<in> set sources \<longrightarrow> resolves vsc) \<and>
        (Git \<in> set sources \<longrightarrow> resolves git) \<and>
        (Svn \<in> set sources \<longrightarrow> resolves svn)) \<and>
   ((VSCode \<in> set sources \<longrightarrow> vsc = Returns (Fulfilled v)) \<and>
    (Git \<in> set sources \<longrightarrow> git = Returns (Fulfilled g)) \<and>
    (Svn \<in> set sources \<longrightarrow> svn = Returns (Fulfilled s)) \<longrightarrow>
      listProjectsFolders vsc git svn items sources
        = Fulfilled ((if Svn \<in> set sources then map svnItem s else [])
            @ (if Git \<in> set sources then map gitItem g else [])
            @ (if VSCode \<in> set sources then map vscodeItem v else [])
            @ (if Projects \<in> set sources then items else []))) \<and>
   vscodeStep (Returns (Fulfilled [])) sources folders = Fulfilled folders \<and>
   gitStep (Returns (Fulfilled [])) sources folders = Fulfilled folders \<and>
   svnStep (Returns (Fulfilled [])) sources folders = Fulfilled folders"
proof -
  have a: "isFulfilled (listProjectsFolders vsc git svn items sources)
     = ((VSCode \<in> set sources \<longrightarrow> resolves vsc) \<and>
        (Git \<in> set sources \<longrightarrow> resolves git) \<and>
        (Svn \<in> set sources \<longrightarrow> resolves svn))"
    by (simp add: listProjectsFolders_def andThen_vscodeStep andThen_gitStep andThen_svnStep)
      (simp add: getProjects_def)
  show ?thesis
    using a listProjectsFolders_enabled_resolved[of sources vsc v git g svn s items]
    by (simp add: step_merges)
qed

theorem chain_fulfilled_iff_sources_resolve_witness:
  "isFulfilled (listProjectsFolders (Returns (Fulfilled [\<lparr>name = ''B'', fullPath = ''/y''\<rparr>]))
      (Returns (Fulfilled [])) Throws [] [Projects, VSCode, Git]) \<and>
   \<not> isFulfilled (listProjectsFolders (Returns (Fulfilled [\<lparr>name = ''B'', fullPath = ''/y''\<rparr>]))
      (Returns Rejected) (Returns (Fulfilled [])) [] [Projects, VSCode, Git, Svn]) \<and>
   listProjectsFolders (Returns (Fulfilled [\<lparr>name = ''B'', fullPath = ''/y''\<rparr>]))
      (Returns (Fulfilled [])) Throws
      [\<lparr>label = ''A'', description = ''/x'', detail = None\<rparr>] [Projects, VSCode, Git]
     = Fulfilled [\<lparr>label = ''$(file-code) B'', description = ''/y'', detail = None\<rparr>,
                  \<lparr>label = ''A'', description = ''/x'', detail = None\<rparr>] \<and>
   gitStep (Returns (Fulfilled [])) [Git]
      [\<lparr>label = ''A'', description = ''/x'', detail = None\<rparr>]
     = Fulfilled [\<lparr>label = ''A'', description = ''/x'', detail = None\<rparr>]"
  using chain_fulfilled_iff_sources_resolve[of
      "Returns (Fulfilled [\<lparr>name = ''B'', fullPath = ''/y''\<rparr>])" "Returns (Fulfilled [])"
      Throws "[]" "[Projects, VSCode, Git]" "[\<lparr>name = ''B'', fullPath = ''/y''\<rparr>]" "[]" "[]" "[]"]
    chain_fulfilled_iff_sources_resolve[of
      "Returns (Fulfilled [\<lparr>name = ''B'', fullPath = ''/y''\<rparr>])" "Returns Rejected"
      "Returns (Fulfilled [])" "[]" "[Projects, VSCode, Git, Svn]" "[]" "[]" "[]" "[]"]
    chain_fulfilled_iff_sources_resolve[of
      "Returns (Fulfilled [\<lparr>name = ''B'', fullPath = ''/y''\<rparr>])" "Returns (Fulfilled [])"
      Throws "[\<lparr>label = ''A'', description = ''/x'', detail = None\<rparr>]"
      "[Projects, VSCode, Git]" "[\<lparr>name = ''B'', fullPath = ''/y''\<rparr>]" "[]" "[]" "[]"]
    chain_fulfilled_iff_sources_resolve[of Throws Throws Throws "[]" "[Git]" "[]" "[]" "[]"
      "[\<lparr>label = ''A'', description = ''/x'', detail = None\<rparr>]"]
  by (simp add: vscodeItem_def)

section \<open>The filter and annotate steps: the claims\<close>

lemma markInvalid_idem: "markInvalid ex (markInvalid ex e) = markInvalid ex e"
  by (simp add: markInvalid_def invalidPathMarker_def)

lemma markHeap_eq:
  "markHeap ex h items r = (if r \<in> set items then markInvalid ex (h r) else h r)"
  by (induction items arbitrary: h) (auto simp: markInvalid_idem)

lemma expandHeap_outside: "r \<notin> set items \<Longrightarrow> expandHeap home h items r = h r"
  by (induction items arbitrary: h) auto

lemma expandHeap_label: "label (expandHeap home h items r) = label (h r)"
  by (induction items arbitrary: h) (auto simp: expandItem_def)

lemma expandHeap_detail: "detail (expandHeap home h items r) = detail (h r)"
  by (induction items arbitrary: h) (auto simp: expandItem_def)

lemma expandHeap_distinct:
  "distinct items \<Longrightarrow> r \<in> set items \<Longrightarrow> expandHeap home h items r = expandItem home (h r)"
  by (induction items arbitrary: h) (auto simp: expandHeap_outside)

lemma snd_annotate:
  "snd (annotate homeDir toLowerCase rootPath existsSync h items)
     = snd (removeRootPath toLowerCase rootPath (expandHeap homeDir h items, items))"
  by (simp add: annotate_def indicateInvalidPaths_def expandHomePaths_def)

lemma fst_annotate:
  "fst (annotate homeDir toLowerCase rootPath existsSync h items)
     = markHeap existsSync (expandHeap homeDir h items)
         (snd (removeRootPath toLowerCase rootPath (expandHeap homeDir h items, items)))"
  by (simp add: annotate_def indicateInvalidPaths_def expandHomePaths_def removeRootPath_def
      split: option.split)

lemma removed_subset:
  "set (snd (removeRootPath toLowerCase rootPath (h, items))) \<subseteq> set items"
  by (auto simp: removeRootPath_def split: option.split)

text \<open>
  C4. With a current root path (a non-empty string), the entries left after the removal
  step are the entries whose expanded location differs from the root path when both are
  lowered by \<open>toLowerCase\<close>, in their order: exactly the entries equal to it up to case
  are removed. This holds for every lowering function, Unicode's among them. Without a
  root path (undefined, or the empty string, which the test \<open>!rootPath\<close> treats the
  same) the sequence is returned as it is. The entries are distinct objects.
\<close>

theorem current_root_removed:
  "(root \<noteq> [] \<longrightarrow> distinct items \<longrightarrow>
      snd (annotate homeDir toLowerCase (Some root) existsSync h items)
        = filter (\<lambda>r. toLowerCase (expandHomePath homeDir (description (h r)))
                          \<noteq> toLowerCase root) items) \<and>
   snd (annotate homeDir toLowerCase None existsSync h items) = items \<and>
   snd (annotate homeDir toLowerCase (Some []) existsSync h items) = items \<and>
   (root \<noteq> [] \<longrightarrow>
      removeRootPath toLowerCase (Some root) (h, items)
        = (h, filter (\<lambda>r. toLowerCase (description (h r)) \<noteq> toLowerCase root) items)) \<and>
   removeRootPath toLowerCase None (h, items) = (h, items)"
proof -
  have "distinct items \<Longrightarrow>
      filter (\<lambda>r. toLowerCase (description (expandHeap homeDir h items r)) \<noteq> toLowerCase root) items
      = filter (\<lambda>r. toLowerCase (expandHomePath homeDir (description (h r))) \<noteq> toLowerCase root) items"
    by (rule filter_cong) (simp_all add: expandHeap_distinct expandItem_def)
  then show ?thesis
    by (simp add: snd_annotate removeRootPath_def)
qed

theorem current_root_removed_witness:
  "snd (annotate ''/home/u'' lowerASCII (Some ''/P'') (\<lambda>p. True)
      (\<lambda>r. if r = 0 then \<lparr>label = ''A'', description = ''/p'', detail = None\<rparr>
           else \<lparr>label = ''B'', description = ''/q'', detail = None\<rparr>) [0, 1]) = [1]"
  using current_root_removed[of "''/P''" "[0, 1]" "''/home/u''" lowerASCII "\<lambda>p. True"
      "\<lambda>r. if r = 0 then \<lparr>label = ''A'', description = ''/p'', detail = None\<rparr>
           else \<lparr>label = ''B'', description = ''/q'', detail = None\<rparr>"]
  by (simp add: lowerASCII_def lowerASCIIChar_def expandHomePath_def indexOf_def
      homePathVariable_def)

lemma markInvalid_detail:
  "detail (markInvalid ex e)
     = (if \<not> truthy (detail e) \<and> \<not> ex (description e) then Some invalidPathMarker else detail e)"
  by (simp add: markInvalid_def)

lemma markInvalid_label: "label (markInvalid ex e) = label e"
  by (simp add: markInvalid_def)

lemma markInvalid_description: "description (markInvalid ex e) = description e"
  by (simp add: markInvalid_def)

lemma marker_truthy: "truthy (Some invalidPathMarker)"
  by (simp add: invalidPathMarker_def)

text \<open>
  C5. \<open>indicateInvalidPaths\<close> returns the sequence it is given. On an entry of it
  without a detail (undefined, or the empty string, which the test \<open>!element.detail\<close>
  treats the same) the detail becomes the invalid-path marker exactly when the location
  does not exist; when the location exists the detail stays as it was, so the entry still
  has none. An entry with a detail keeps its detail. In the whole step this reads: an
  entry that is left after the removal of the current root is flagged when it had no
  detail and its expanded location does not exist.
\<close>

theorem invalid_paths_flagged:
  "snd (indicateInvalidPaths existsSync (h, items)) = items \<and>
   (r \<in> set items \<longrightarrow>
      (\<not> truthy (detail (h r)) \<longrightarrow>
         (detail (fst (indicateInvalidPaths existsSync (h, items)) r) = Some invalidPathMarker)
           = (\<not> existsSync (description (h r))) \<and>
         (existsSync (description (h r)) \<longrightarrow>
            detail (fst (indicateInvalidPaths existsSync (h, items)) r) = detail (h r))) \<and>
      (truthy (detail (h r)) \<longrightarrow>
         detail (fst (indicateInvalidPaths existsSync (h, items)) r) = detail (h r))) \<and>
   (distinct items \<longrightarrow> r \<in> set (snd (annotate homeDir toLowerCase rootPath existsSync h items)) \<longrightarrow>
      detail (fst (annotate homeDir toLowerCase rootPath existsSync h items) r)
        = (if \<not> truthy (detail (h r))
              \<and> \<not> existsSync (expandHomePath homeDir (description (h r)))
           then Some invalidPathMarker else detail (h r)))"
proof -
  have a: "snd (indicateInvalidPaths existsSync (h, items)) = items"
    by (simp add: indicateInvalidPaths_def)
  have b: "fst (indicateInvalidPaths existsSync (h, items)) r
      = (if r \<in> set items then markInvalid existsSync (h r) else h r)"
    by (simp add: indicateInvalidPaths_def markHeap_eq)
  have c: "\<not> truthy (detail (h r)) \<Longrightarrow> detail (h r) \<noteq> Some invalidPathMarker"
    using marker_truthy by auto
  have d: "detail (fst (annotate homeDir toLowerCase rootPath existsSync h items) r)
        = (if \<not> truthy (detail (h r))
              \<and> \<not> existsSync (expandHomePath homeDir (description (h r)))
           then Some invalidPathMarker else detail (h r))"
    if "distinct items"
      and "r \<in> set (snd (annotate homeDir toLowerCase rootPath existsSync h items))"
  proof -
    have "r \<in> set items"
      using that(2) removed_subset[of toLowerCase rootPath "expandHeap homeDir h items" items]
      by (auto simp: snd_annotate)
    then have "expandHeap homeDir h items r = expandItem homeDir (h r)"
      using that(1) by (simp add: expandHeap_distinct)
    then show ?thesis
      using that(2)
      by (simp add: fst_annotate snd_annotate markHeap_eq markInvalid_detail expandItem_def)
  qed
  show ?thesis
    using a b c d by (simp add: markInvalid_detail)
qed

theorem invalid_paths_flagged_witness:
  "detail (fst (indicateInvalidPaths (\<lambda>p. p = ''/q'')
      (\<lambda>r. if r = 0 then \<lparr>label = ''A'', description = ''/p'', detail = None\<rparr>
           else if r = 1 then \<lparr>label = ''B'', description = ''/q'', detail = None\<rparr>
           else \<lparr>label = ''C'', description = ''/r'', detail = Some ''note''\<rparr>, [0, 1, 2])) 0)
     = Some invalidPathMarker \<and>
   detail (fst (indicateInvalidPaths (\<lambda>p. p = ''/q'')
      (\<lambda>r. if r = 0 then \<lparr>label = ''A'', description = ''/p'', detail = None\<rparr>
           else if r = 1 then \<lparr>label = ''B'', description = ''/q'', detail = None\<rparr>
           else \<lparr>label = ''C'', description = ''/r'', detail = Some ''note''\<rparr>, [0, 1, 2])) 1)
     = None \<and>
   detail (fst (indicateInvalidPaths (\<lambda>p. p = ''/q'')
      (\<lambda>r. if r = 0 then \<lparr>label = ''A'', description = ''/p'', detail = None\<rparr>
           else if r = 1 then \<lparr>label = ''B'', description = ''/q'', detail = None\<rparr>
           else \<lparr>label = ''C'', description = ''/r'', detail = Some ''note''\<rparr>, [0, 1, 2])) 2)
     = Some ''note'' \<and>
   detail (fst (annotate ''/h'' lowerASCII (Some ''/Q'') (\<lambda>p. p = ''/q'')
      (\<lambda>r. if r = 0 then \<lparr>label = ''A'', description = ''/p'', detail = None\<rparr>
           else if r = 1 then \<lparr>label = ''B'', description = ''/q'', detail = None\<rparr>
           else \<lparr>label = ''C'', description = ''/r'', detail = Some ''note''\<rparr>) [0, 1, 2]) 0)
     = Some invalidPathMarker"
  using invalid_paths_flagged[of "\<lambda>p. p = ''/q''"
      "\<lambda>r. if r = 0 then \<lparr>label = ''A'', description = ''/p'', detail = None\<rparr>
           else if r = 1 then \<lparr>label = ''B'', description = ''/q'', detail = None\<rparr>
           else \<lparr>label = ''C'', description = ''/r'', detail = Some ''note''\<rparr>" "[0, 1, 2]" 0]
    invalid_paths_flagged[of "\<lambda>p. p = ''/q''"
      "\<lambda>r. if r = 0 then \<lparr>label = ''A'', description = ''/p'', detail = None\<rparr>
           else if r = 1 then \<lparr>label = ''B'', description = ''/q'', detail = None\<rparr>
           else \<lparr>label = ''C'', description = ''/r'', detail = Some ''note''\<rparr>" "[0, 1, 2]" 1]
    invalid_paths_flagged[of "\<lambda>p. p = ''/q''"
      "\<lambda>r. if r = 0 then \<lparr>label = ''A'', description = ''/p'', detail = None\<rparr>
           else if r = 1 then \<lparr>label = ''B'', description = ''/q'', detail = None\<rparr>
           else \<lparr>label = ''C'', description = ''/r'', detail = Some ''note''\<rparr>" "[0, 1, 2]" 2]
    invalid_paths_flagged[of "\<lambda>p. p = ''/q''"
      "\<lambda>r. if r = 0 then \<lparr>label = ''A'', description = ''/p'', detail = None\<rparr>
           else if r = 1 then \<lparr>label = ''B'', description = ''/q'', detail = None\<rparr>
           else \<lparr>label = ''C'', description = ''/r'', detail = Some ''note''\<rparr>" "[0, 1, 2]" 0
      "''/h''" lowerASCII "Some ''/Q''"]
  by (simp add: snd_annotate expandHomePaths_def removeRootPath_def expandItem_def
      expandHomePath_def indexOf_def homePathVariable_def lowerASCII_def lowerASCIIChar_def)

text \<open>
  C8, as the claim states it, fails: the expansion step assigns to \<open>description\<close>. An
  entry stored with the location \<open>$home/x\<close> has the location \<open>/home/u/x\<close> after
  the step.
\<close>

theorem expansion_rewrites_location:
  "description (fst (annotate ''/home/u'' lowerASCII None (\<lambda>p. True)
      (\<lambda>r. \<lparr>label = ''A'', description = ''$home/x'', detail = None\<rparr>) [0]) 0) = ''/home/u/x'' \<and>
   description (fst (annotate ''/home/u'' lowerASCII None (\<lambda>p. True)
      (\<lambda>r. \<lparr>label = ''A'', description = ''$home/x'', detail = None\<rparr>) [0]) 0)
     \<noteq> description ((\<lambda>r. \<lparr>label = ''A'', description = ''$home/x'', detail = None\<rparr>) (0::nat))"
  by (simp add: annotate_def expandHomePaths_def removeRootPath_def indicateInvalidPaths_def
      expandItem_def markInvalid_def expandHomePath_def indexOf_def replace_def
      homePathVariable_def)

text \<open>
  C8, amended. The step never changes a label, and it leaves every object that is not in
  the sequence as it was. The location of an entry of the sequence is rewritten to its
  expansion, and in no other way. A detail changes only on an entry that is left after the
  removal of the current root, and only to the invalid-path marker.
\<close>

theorem annotate_frame:
  "label (fst (annotate homeDir toLowerCase rootPath existsSync h items) r) = label (h r) \<and>
   (r \<notin> set items \<longrightarrow> fst (annotate homeDir toLowerCase rootPath existsSync h items) r = h r) \<and>
   (distinct items \<longrightarrow> r \<in> set items \<longrightarrow>
      description (fst (annotate homeDir toLowerCase rootPath existsSync h items) r)
        = expandHomePath homeDir (description (h r))) \<and>
   (detail (fst (annotate homeDir toLowerCase rootPath existsSync h items) r) \<noteq> detail (h r) \<longrightarrow>
      r \<in> set (snd (annotate homeDir toLowerCase rootPath existsSync h items)) \<and>
      detail (fst (annotate homeDir toLowerCase rootPath existsSync h items) r) = Some invalidPathMarker)"
proof -
  let ?h1 = "expandHeap homeDir h items"
  let ?kept = "snd (removeRootPath toLowerCase rootPath (?h1, items))"
  have kept: "set ?kept \<subseteq> set items"
    by (rule removed_subset)
  have l: "label (fst (annotate homeDir toLowerCase rootPath existsSync h items) r) = label (h r)"
    by (simp add: fst_annotate markHeap_eq markInvalid_label expandHeap_label)
  have o: "fst (annotate homeDir toLowerCase rootPath existsSync h items) r = h r" if "r \<notin> set items"
    using that kept by (auto simp: fst_annotate markHeap_eq expandHeap_outside)
  have d: "description (fst (annotate homeDir toLowerCase rootPath existsSync h items) r)
        = expandHomePath homeDir (description (h r))" if "distinct items" "r \<in> set items"
    using that
    by (simp add: fst_annotate markHeap_eq markInvalid_description expandHeap_distinct
        expandItem_def)
  have t: "r \<in> set (snd (annotate homeDir toLowerCase rootPath existsSync h items)) \<and>
      detail (fst (annotate homeDir toLowerCase rootPath existsSync h items) r) = Some invalidPathMarker"
    if "detail (fst (annotate homeDir toLowerCase rootPath existsSync h items) r) \<noteq> detail (h r)"
    using that
    by (auto simp: fst_annotate snd_annotate markHeap_eq markInvalid_detail expandHeap_detail
        split: if_splits)
  show ?thesis
    using l o d t by blast
qed

theorem annotate_frame_witness:
  "label (fst (annotate ''/home/u'' lowerASCII (Some ''/q'') (\<lambda>p. False)
      (\<lambda>r. if r = 0 then \<lparr>label = ''A'', description = ''$home/x'', detail = None\<rparr>
           else \<lparr>label = ''B'', description = ''/q'', detail = None\<rparr>) [0, 1]) 0) = ''A'' \<and>
   description (fst (annotate ''/home/u'' lowerASCII (Some ''/q'') (\<lambda>p. False)
      (\<lambda>r. if r = 0 then \<lparr>label = ''A'', description = ''$home/x'', detail = None\<rparr>
           else \<lparr>label = ''B'', description = ''/q'', detail = None\<rparr>) [0, 1]) 0)
     = ''/home/u/x'' \<and>
   fst (annotate ''/home/u'' lowerASCII (Some ''/q'') (\<lambda>p. False)
      (\<lambda>r. if r = 0 then \<lparr>label = ''A'', description = ''$home/x'', detail = None\<rparr>
           else \<lparr>label = ''B'', description = ''/q'', detail = None\<rparr>) [0, 1]) 7
     = \<lparr>label = ''B'', description = ''/q'', detail = None\<rparr>"
  using annotate_frame[of "''/home/u''" lowerASCII "Some ''/q''" "\<lambda>p. False"
      "\<lambda>r. if r = 0 then \<lparr>label = ''A'', description = ''$home/x'', detail = None\<rparr>
           else \<lparr>label = ''B'', description = ''/q'', detail = None\<rparr>" "[0, 1]" 0]
    annotate_frame[of "''/home/u''" lowerASCII "Some ''/q''" "\<lambda>p. False"
      "\<lambda>r. if r = 0 then \<lparr>label = ''A'', description = ''$home/x'', detail = None\<rparr>
           else \<lparr>label = ''B'', description = ''/q'', detail = None\<rparr>" "[0, 1]" 7]
  by (simp add: expandHomePath_def indexOf_def replace_def homePathVariable_def)

section \<open>Saving a project: the claims\<close>

lemma update_names: "map projName (storageUpdateRootPath ps nm root) = map projName ps"
  by (induction ps) (simp_all add: storageUpdateRootPath_def)

lemma saveProject_exists_names:
  "storageExists (catalog st) nm \<Longrightarrow>
     map projName (catalog (snd (saveProject homeDir bound ws (Some nm) choice st)))
       = map projName (catalog st)"
  by (simp add: saveProject_def Let_def update_names
      split: option.split messageItem.split)

lemma saveProject_created:
  "fst (saveProject homeDir bound ws projectName choice st) = Created \<Longrightarrow>
     \<exists>nm. projectName = Some nm \<and> nm \<noteq> [] \<and> \<not> storageExists (catalog st) nm"
  by (auto simp: saveProject_def Let_def split: option.splits messageItem.splits if_splits)

lemma saveProject_distinct:
  "distinct (map projName (catalog st)) \<Longrightarrow>
     distinct (map projName (catalog (snd (saveProject homeDir bound ws projectName choice st))))"
  by (auto simp: saveProject_def Let_def update_names storagePush_def storageExists_def
      split: option.splits messageItem.splits)

text \<open>
  C6. A save with the empty label changes nothing. When the label is already in the
  catalog, the catalog's labels are the same after the save whatever the user answers, so
  no second entry is created: on Update the location of the entry with that label is
  replaced by the compacted workspace root, the label is pushed on the recency stack and
  both are persisted, all else being kept; on Cancel the state is unchanged. A save ends
  in the create branch only with a non-empty label that is not in the catalog. So labels
  that are unique before a save are unique after it.
\<close>

theorem save_keeps_labels_unique:
  "snd (saveProject homeDir bound ws (Some []) choice st) = st \<and>
   (storageExists (catalog st) nm \<longrightarrow>
      map projName (catalog (snd (saveProject homeDir bound ws (Some nm) choice st)))
        = map projName (catalog st)) \<and>
   (storageExists (catalog st) nm \<longrightarrow> nm \<noteq> [] \<longrightarrow>
      saveProject homeDir bound (Some wsRoot) (Some nm) (Some Update) st
        = (Updated,
           st\<lparr>catalog := map (\<lambda>p. if projName p = nm
                                   then p\<lparr>projRootPath := compactHomePath homeDir wsRoot\<rparr> else p)
                             (catalog st),
              catalogFile := map (\<lambda>p. if projName p = nm
                                   then p\<lparr>projRootPath := compactHomePath homeDir wsRoot\<rparr> else p)
                             (catalog st),
              aStack := stackPush bound nm (aStack st),
              recent := stackPush bound nm (aStack st)\<rparr>)) \<and>
   (storageExists (catalog st) nm \<longrightarrow>
      snd (saveProject homeDir bound ws (Some nm) (Some Cancel) st) = st) \<and>
   (fst (saveProject homeDir bound ws projectName choice st) = Created \<longrightarrow>
      (\<exists>nm'. projectName = Some nm' \<and> nm' \<noteq> [] \<and> \<not> storageExists (catalog st) nm')) \<and>
   (distinct (map projName (catalog st)) \<longrightarrow>
      distinct (map projName (catalog (snd (saveProject homeDir bound ws projectName choice st)))))"
proof -
  have a: "snd (saveProject homeDir bound ws (Some []) choice st) = st"
    by (simp add: saveProject_def split: option.split)
  have b: "saveProject homeDir bound (Some wsRoot) (Some nm) (Some Update) st
        = (Updated,
           st\<lparr>catalog := map (\<lambda>p. if projName p = nm
                                   then p\<lparr>projRootPath := compactHomePath homeDir wsRoot\<rparr> else p)
                             (catalog st),
              catalogFile := map (\<lambda>p. if projName p = nm
                                   then p\<lparr>projRootPath := compactHomePath homeDir wsRoot\<rparr> else p)
                             (catalog st),
              aStack := stackPush bound nm (aStack st),
              recent := stackPush bound nm (aStack st)\<rparr>)"
    if "storageExists (catalog st) nm" "nm \<noteq> []"
    using that by (simp add: saveProject_def Let_def storageUpdateRootPath_def)
  have c: "snd (saveProject homeDir bound ws (Some nm) (Some Cancel) st) = st"
    if "storageExists (catalog st) nm"
    using that by (simp add: saveProject_def Let_def split: option.split)
  show ?thesis
    using a b c saveProject_exists_names[of st nm homeDir bound ws choice]
      saveProject_created[of homeDir bound ws projectName choice st]
      saveProject_distinct[of st homeDir bound ws projectName choice]
    by blast
qed

theorem save_keeps_labels_unique_witness:
  "saveProject ''/home/u'' 10 (Some ''/home/u/p'') (Some ''A'') (Some Update)
       \<lparr>catalog = [\<lparr>projName = ''A'', projRootPath = ''/x'', projNote = ''n''\<rparr>,
                   \<lparr>projName = ''B'', projRootPath = ''/y'', projNote = []\<rparr>],
        catalogFile = [], aStack = [''B'', ''A'', ''C''], recent = []\<rparr>
     = (Updated,
        \<lparr>catalog = [\<lparr>projName = ''A'', projRootPath = ''$home/p'', projNote = ''n''\<rparr>,
                    \<lparr>projName = ''B'', projRootPath = ''/y'', projNote = []\<rparr>],
         catalogFile = [\<lparr>projName = ''A'', projRootPath = ''$home/p'', projNote = ''n''\<rparr>,
                        \<lparr>projName = ''B'', projRootPath = ''/y'', projNote = []\<rparr>],
         aStack = [''B'', ''C'', ''A''], recent = [''B'', ''C'', ''A'']\<rparr>) \<and>
   distinct (map projName (catalog (snd (saveProject ''/home/u'' 10 (Some ''/home/u/p'')
       (Some ''C'') None
       \<lparr>catalog = [\<lparr>projName = ''A'', projRootPath = ''/x'', projNote = ''n''\<rparr>,
                   \<lparr>projName = ''B'', projRootPath = ''/y'', projNote = []\<rparr>],
        catalogFile = [], aStack = [''B'', ''A'', ''C''], recent = []\<rparr>))))"
  using save_keeps_labels_unique[of "''/home/u''" 10 "Some ''/home/u/p''" "Some Update"
      "\<lparr>catalog = [\<lparr>projName = ''A'', projRootPath = ''/x'', projNote = ''n''\<rparr>,
                   \<lparr>projName = ''B'', projRootPath = ''/y'', projNote = []\<rparr>],
        catalogFile = [], aStack = [''B'', ''A'', ''C''], recent = []\<rparr>" "''A''" "''/home/u/p''"
      "Some ''A''"]
    save_keeps_labels_unique[of "''/home/u''" 10 "Some ''/home/u/p''" None
      "\<lparr>catalog = [\<lparr>projName = ''A'', projRootPath = ''/x'', projNote = ''n''\<rparr>,
                   \<lparr>projName = ''B'', projRootPath = ''/y'', projNote = []\<rparr>],
        catalogFile = [], aStack = [''B'', ''A'', ''C''], recent = []\<rparr>" "''C''" "''/home/u/p''"
      "Some ''C''"]
  by (simp add: storageExists_def compactHomePath_def indexOf_def replace_def
      homePathVariable_def stackPush_def)

end
